theory Spec2Isabelle
  imports Main "HOL-Library.Word"
begin

section \<open>JavaScript values of the course front end\<close>

text \<open>
  The front end (\<^verbatim>\<open>Course.js\<close> and the course cards module) handles three kinds of
  values: plain JSON values, the ledger's wire objects (codec objects, which answer
  \<^verbatim>\<open>toJSON()\<close> and \<^verbatim>\<open>toU8a()\<close>), and functions (unsubscribe handles).  A wire object
  is modelled by what its two methods return; a function by an identifier, so that a
  log can say which function was invoked.
\<close>

datatype json = JNull | JNum int | JStr string

datatype wire = Codec (toJSON: json) (toU8a: "8 word list")

datatype jsval = Undefined | Plain json | Wire wire | Function nat

datatype error =
    TypeError            \<comment> \<open>calling a method a value does not have, or reading a property of null\<close>
  | UnwrapNone           \<comment> \<open>\<^verbatim>\<open>Option.unwrap()\<close> on an absent value\<close>
  | Transport string     \<comment> \<open>a rejected query or subscription of the ledger connection\<close>

text \<open>JavaScript truthiness, as used by \<^verbatim>\<open>!x\<close>, \<^verbatim>\<open>x && y\<close> and \<^verbatim>\<open>x || y\<close>.\<close>

fun truthy :: "jsval \<Rightarrow> bool" where
  "truthy Undefined = False"
| "truthy (Plain JNull) = False"
| "truthy (Plain (JNum n)) = (n \<noteq> 0)"
| "truthy (Plain (JStr s)) = (s \<noteq> [])"
| "truthy (Wire w) = True"
| "truthy (Function f) = True"

text \<open>
  A method call \<^verbatim>\<open>v.toJSON()\<close> or \<^verbatim>\<open>v.toU8a()\<close>: only a wire object has these methods;
  on \<^verbatim>\<open>null\<close> and \<^verbatim>\<open>undefined\<close> the property read throws, on a number, a string or a
  function the property is \<^verbatim>\<open>undefined\<close> and the call throws.
\<close>

definition call_toJSON :: "jsval \<Rightarrow> error + jsval" where
  "call_toJSON v = (case v of Wire w \<Rightarrow> Inr (Plain (toJSON w)) | _ \<Rightarrow> Inl TypeError)"

definition call_toU8a :: "jsval \<Rightarrow> error + 8 word list" where
  "call_toU8a v = (case v of Wire w \<Rightarrow> Inr (toU8a w) | _ \<Rightarrow> Inl TypeError)"

text \<open>
  A destructuring default \<^verbatim>\<open>{ x = null } = obj\<close> replaces exactly \<^verbatim>\<open>undefined\<close>.
\<close>

definition default_null :: "jsval \<Rightarrow> jsval" where
  "default_null v = (if v = Undefined then Plain JNull else v)"

text \<open>
  \<^verbatim>\<open>Array.prototype.map\<close> with a callback that may throw: the first throw ends the
  whole map.
\<close>

fun map_throw :: "('a \<Rightarrow> error + 'b) \<Rightarrow> 'a list \<Rightarrow> error + 'b list" where
  "map_throw f [] = Inr []"
| "map_throw f (x # xs) =
     (case f x of
        Inl e \<Rightarrow> Inl e
      | Inr y \<Rightarrow> (case map_throw f xs of Inl e \<Rightarrow> Inl e | Inr ys \<Rightarrow> Inr (y # ys)))"

section \<open>Course records\<close>

text \<open>
  The record the ledger stores, as the connection delivers it: every field is a wire
  object.  The connection delivers it wrapped in its \<^verbatim>\<open>Option\<close> type, whose \<^verbatim>\<open>unwrap()\<close>
  returns the record when it is present and throws when it is absent.
\<close>

record raw_course =
  raw_dna :: wire
  raw_price :: wire
  raw_course_year :: wire
  raw_owner :: wire

definition unwrap :: "'a option \<Rightarrow> error + 'a" where
  "unwrap w = (case w of None \<Rightarrow> Inl UnwrapNone | Some r \<Rightarrow> Inr r)"

text \<open>The record the component stores and the cards render (a missing property is \<open>Undefined\<close>).\<close>

record course =
  dna :: jsval
  price :: jsval
  course_year :: jsval
  owner :: jsval

text \<open>
  \<^verbatim>\<open>const parseCourse = ({ dna, price, course_year, owner }) => ({
    dna, price: price.toJSON(), course_year: course_year.toJSON(), owner: owner.toJSON() })\<close>
\<close>

definition parseCourse :: "raw_course \<Rightarrow> course" where
  "parseCourse r =
     \<lparr>dna = Wire (raw_dna r),
      price = Plain (toJSON (raw_price r)),
      course_year = Plain (toJSON (raw_course_year r)),
      owner = Plain (toJSON (raw_owner r))\<rparr>"

section \<open>The Courses component\<close>

text \<open>
  The component's three pieces of React state, the closure variable \<^verbatim>\<open>unsub\<close> of each of
  its two effects, and three logs: the queries issued to the ledger connection, the
  unsubscribe functions invoked, and the errors that escaped a callback or a
  fire-and-forget asynchronous function (nothing in the component catches them).
\<close>

datatype api_call = CountForCourses | Entries | Multi "wire list"

record world =
  courseIds :: "wire list"
  courses :: "course list"
  status :: string
  count_unsub :: jsval
  courses_unsub :: jsval
  api_calls :: "api_call list"
  unsub_calls :: "nat list"
  escaped :: "error list"

text \<open>\<^verbatim>\<open>useState([])\<close>, \<^verbatim>\<open>useState([])\<close>, \<^verbatim>\<open>useState('')\<close>.\<close>

definition mount :: world where
  "mount =
     \<lparr>courseIds = [], courses = [], status = [],
      count_unsub = Plain JNull, courses_unsub = Plain JNull,
      api_calls = [], unsub_calls = [], escaped = []\<rparr>"

text \<open>
  A callback or the rest of an asynchronous function either returns the next state or
  throws.  Nothing catches the throw: the state stays as it was and the error escapes.
\<close>

definition settle :: "(world \<Rightarrow> error + world) \<Rightarrow> world \<Rightarrow> world" where
  "settle h w = (case h w of Inl e \<Rightarrow> w\<lparr>escaped := escaped w @ [e]\<rparr> | Inr w' \<Rightarrow> w')"

subsection \<open>subscribeCount\<close>

text \<open>
  \<^verbatim>\<open>subscribeCount\<close> sets \<^verbatim>\<open>unsub = null\<close> and starts \<^verbatim>\<open>asyncFetch\<close>, which runs up to its
  \<^verbatim>\<open>await\<close>: the subscription to \<^verbatim>\<open>countForCourses\<close> is requested once.
\<close>

definition subscribeCount :: "world \<Rightarrow> world" where
  "subscribeCount w =
     w\<lparr>count_unsub := Plain JNull, api_calls := api_calls w @ [CountForCourses]\<rparr>"

text \<open>
  The rest of \<^verbatim>\<open>asyncFetch\<close>, once the awaited request settles: a rejection is thrown
  out of \<^verbatim>\<open>asyncFetch\<close>, a handle is assigned to \<^verbatim>\<open>unsub\<close>.
\<close>

definition subscribeCount_asyncFetch :: "error + jsval \<Rightarrow> world \<Rightarrow> error + world" where
  "subscribeCount_asyncFetch r w =
     (case r of Inl e \<Rightarrow> Inl e | Inr h \<Rightarrow> Inr (w\<lparr>count_unsub := h\<rparr>))"

text \<open>
  The subscription's callback \<^verbatim>\<open>async count => { ... }\<close>.  It ignores \<^verbatim>\<open>count\<close>, requests
  the full enumeration \<^verbatim>\<open>courses.entries()\<close> and awaits it.
\<close>

definition count_callback :: "nat \<Rightarrow> world \<Rightarrow> world" where
  "count_callback count w = w\<lparr>api_calls := api_calls w @ [Entries]\<rparr>"

text \<open>\<^verbatim>\<open>entries.map(entry => entry[1].unwrap().dna)\<close>\<close>

definition entry_ids :: "(8 word list \<times> raw_course option) list \<Rightarrow> error + wire list" where
  "entry_ids entries =
     map_throw (\<lambda>entry. case unwrap (snd entry) of Inl e \<Rightarrow> Inl e | Inr r \<Rightarrow> Inr (raw_dna r))
       entries"

text \<open>The rest of the callback, once the enumeration settles: \<^verbatim>\<open>setCourseIds(ids)\<close>.\<close>

definition count_callback_resume ::
  "error + (8 word list \<times> raw_course option) list \<Rightarrow> world \<Rightarrow> error + world" where
  "count_callback_resume r w =
     (case r of
        Inl e \<Rightarrow> Inl e
      | Inr entries \<Rightarrow>
          (case entry_ids entries of
             Inl e \<Rightarrow> Inl e
           | Inr ids \<Rightarrow> Inr (w\<lparr>courseIds := ids\<rparr>)))"

text \<open>
  One push of the aggregate signal, handled to its end: the count pushed and what the
  enumeration requested by this push answered.
\<close>

definition count_push ::
  "nat \<times> (error + (8 word list \<times> raw_course option) list) \<Rightarrow> world \<Rightarrow> world" where
  "count_push p w = settle (count_callback_resume (snd p)) (count_callback (fst p) w)"

text \<open>The cleanup the effect returns: \<^verbatim>\<open>unsub && unsub()\<close>.\<close>

definition call_handle :: "jsval \<Rightarrow> error + nat list" where
  "call_handle u =
     (if truthy u then (case u of Function f \<Rightarrow> Inr [f] | _ \<Rightarrow> Inl TypeError) else Inr [])"

definition subscribeCount_cleanup :: "world \<Rightarrow> error + world" where
  "subscribeCount_cleanup w =
     (case call_handle (count_unsub w) of
        Inl e \<Rightarrow> Inl e
      | Inr fs \<Rightarrow> Inr (w\<lparr>unsub_calls := unsub_calls w @ fs\<rparr>))"

subsection \<open>subscribeCourses\<close>

text \<open>
  The ledger's multi-key subscription delivers, per push, the wrapped optional records
  of the keys it was opened with, in the keys' order.
\<close>

definition multi :: "(wire \<Rightarrow> raw_course option) \<Rightarrow> wire list \<Rightarrow> raw_course option list" where
  "multi ledger keys = map ledger keys"

text \<open>
  \<^verbatim>\<open>subscribeCourses\<close> sets \<^verbatim>\<open>unsub = null\<close> and starts \<^verbatim>\<open>asyncFetch\<close>, which requests
  \<^verbatim>\<open>courses.multi(courseIds, ...)\<close> with the identifiers stored at that moment.
\<close>

definition subscribeCourses :: "world \<Rightarrow> world" where
  "subscribeCourses w =
     w\<lparr>courses_unsub := Plain JNull, api_calls := api_calls w @ [Multi (courseIds w)]\<rparr>"

definition subscribeCourses_asyncFetch :: "error + jsval \<Rightarrow> world \<Rightarrow> error + world" where
  "subscribeCourses_asyncFetch r w =
     (case r of Inl e \<Rightarrow> Inl e | Inr h \<Rightarrow> Inr (w\<lparr>courses_unsub := h\<rparr>))"

text \<open>
  The subscription's callback:
  \<^verbatim>\<open>courses => { const coursesMap = courses.map(course => parseCourse(course.unwrap()));
                setCourses(coursesMap) }\<close>
\<close>

definition courses_callback :: "raw_course option list \<Rightarrow> world \<Rightarrow> error + world" where
  "courses_callback cs w =
     (case map_throw (\<lambda>c. case unwrap c of Inl e \<Rightarrow> Inl e | Inr r \<Rightarrow> Inr (parseCourse r)) cs of
        Inl e \<Rightarrow> Inl e
      | Inr coursesMap \<Rightarrow> Inr (w\<lparr>courses := coursesMap\<rparr>))"

definition subscribeCourses_cleanup :: "world \<Rightarrow> error + world" where
  "subscribeCourses_cleanup w =
     (case call_handle (courses_unsub w) of
        Inl e \<Rightarrow> Inl e
      | Inr fs \<Rightarrow> Inr (w\<lparr>unsub_calls := unsub_calls w @ fs\<rparr>))"

text \<open>
  \<^verbatim>\<open>useEffect(subscribeCourses, [api, keyring, courseIds])\<close>: when \<^verbatim>\<open>courseIds\<close> is set
  again, React calls the cleanup of the previous run and then \<^verbatim>\<open>subscribeCourses\<close> anew.
\<close>

definition rerun_subscribeCourses :: "world \<Rightarrow> world" where
  "rerun_subscribeCourses w = subscribeCourses (settle subscribeCourses_cleanup w)"

section \<open>The course cards\<close>

subsection \<open>Call descriptors and the dialogs' state\<close>

text \<open>The \<^verbatim>\<open>attrs\<close> object a dialog hands to its \<^verbatim>\<open>TxButton\<close>.\<close>

record attrs =
  palletRpc :: string
  callable :: string
  inputParams :: "jsval list"
  paramFields :: "bool list"

text \<open>
  The state of a transfer or set-price dialog: \<^verbatim>\<open>useState(false)\<close> and \<^verbatim>\<open>useState({})\<close>.
  The form object maps a key to the text typed into the input.
\<close>

record modal =
  "open" :: bool
  formValue :: "string \<rightharpoonup> string"

definition new_modal :: modal where
  "new_modal = \<lparr>open = False, formValue = Map.empty\<rparr>"

text \<open>Reading a property of the form object: a key never set reads \<^verbatim>\<open>undefined\<close>.\<close>

definition get_prop :: "(string \<rightharpoonup> string) \<Rightarrow> string \<Rightarrow> jsval" where
  "get_prop obj key = (case obj key of None \<Rightarrow> Undefined | Some s \<Rightarrow> Plain (JStr s))"

text \<open>\<^verbatim>\<open>const formChange = key => (ev, el) => { setFormValue({ ...formValue, [key]: el.value }) }\<close>\<close>

definition formChange :: "string \<Rightarrow> string \<Rightarrow> modal \<Rightarrow> modal" where
  "formChange key el_value m = m\<lparr>formValue := (formValue m)(key \<mapsto> el_value)\<rparr>"

text \<open>
  \<^verbatim>\<open>const confirmAndClose = unsub => { setOpen(false)
       if (unsub && typeof unsub === 'function') unsub() }\<close>
  The second component lists the functions invoked.
\<close>

definition confirmAndClose :: "jsval \<Rightarrow> modal \<Rightarrow> modal \<times> nat list" where
  "confirmAndClose unsub m =
     (m\<lparr>open := False\<rparr>,
      if truthy unsub then (case unsub of Function f \<Rightarrow> [f] | _ \<Rightarrow> []) else [])"

text \<open>The buy dialog keeps only \<^verbatim>\<open>open\<close>; its \<^verbatim>\<open>confirmAndClose\<close> is the same code.\<close>

definition BuyCourse_confirmAndClose :: "jsval \<Rightarrow> bool \<Rightarrow> bool \<times> nat list" where
  "BuyCourse_confirmAndClose unsub opn =
     (False,
      if truthy unsub then (case unsub of Function f \<Rightarrow> [f] | _ \<Rightarrow> []) else [])"

subsection \<open>The transaction button\<close>

text \<open>
  Modelled from the spec: \<^verbatim>\<open>TxButton\<close> of \<^verbatim>\<open>substrate-lib/components\<close>, which the
  dialogs import and which is not among the sources.  The specification says of it: on
  confirm the dialog submits its call descriptor to the transaction-submission
  primitive and then closes, whatever the outcome; the outcome is reported as a status
  text; the primitive may hand the completion callback an unsubscribe handle; and no
  validation of the input is done beyond requiring it to be non-empty.  A parameter is
  empty when it is \<^verbatim>\<open>undefined\<close>, \<^verbatim>\<open>null\<close> or the empty string.
\<close>

definition param_filled :: "jsval \<Rightarrow> bool" where
  "param_filled p = (p \<noteq> Undefined \<and> p \<noteq> Plain JNull \<and> p \<noteq> Plain (JStr []))"

record 's click =
  dialog :: 's
  submitted :: "attrs option"
  status_text :: "string option"
  invoked :: "nat list"

text \<open>
  Modelled from the spec: a click on \<^verbatim>\<open>TxButton\<close>.  \<open>outcome\<close> is the status text the
  submission ends with (success and failure differ only in the text), \<open>unsub\<close> the handle
  passed to the \<^verbatim>\<open>onClick\<close> callback of the dialog.
\<close>

definition TxButton ::
  "attrs \<Rightarrow> (jsval \<Rightarrow> 's \<Rightarrow> 's \<times> nat list) \<Rightarrow> string \<Rightarrow> jsval \<Rightarrow> 's \<Rightarrow> 's click" where
  "TxButton a onClick outcome unsub s =
     (if list_all param_filled (inputParams a)
      then (case onClick unsub s of
              (s', fs) \<Rightarrow>
                \<lparr>dialog = s', submitted = Some a, status_text = Some outcome, invoked = fs\<rparr>)
      else \<lparr>dialog = s, submitted = None, status_text = None, invoked = []\<rparr>)"

subsection \<open>TransferModal, SetPrice, BuyCourse\<close>

definition TransferModal_attrs :: "course \<Rightarrow> modal \<Rightarrow> attrs" where
  "TransferModal_attrs c m =
     \<lparr>palletRpc = ''courseGrading'', callable = ''transfer'',
      inputParams = [get_prop (formValue m) ''target'', dna c],
      paramFields = [True, True]\<rparr>"

definition SetPrice_attrs :: "course \<Rightarrow> modal \<Rightarrow> attrs" where
  "SetPrice_attrs c m =
     \<lparr>palletRpc = ''courseGrading'', callable = ''setPrice'',
      inputParams = [dna c, get_prop (formValue m) ''target''],
      paramFields = [True, True]\<rparr>"

definition BuyCourse_attrs :: "course \<Rightarrow> attrs" where
  "BuyCourse_attrs c =
     \<lparr>palletRpc = ''courseGrading'', callable = ''buyCourse'',
      inputParams = [dna c, price c],
      paramFields = [True, True]\<rparr>"

text \<open>A click on the dialog's confirm button: the \<^verbatim>\<open>TxButton\<close> as each dialog wires it.\<close>

definition TransferModal_confirm :: "course \<Rightarrow> string \<Rightarrow> jsval \<Rightarrow> modal \<Rightarrow> modal click" where
  "TransferModal_confirm c outcome unsub m =
     TxButton (TransferModal_attrs c m) confirmAndClose outcome unsub m"

definition SetPrice_confirm :: "course \<Rightarrow> string \<Rightarrow> jsval \<Rightarrow> modal \<Rightarrow> modal click" where
  "SetPrice_confirm c outcome unsub m =
     TxButton (SetPrice_attrs c m) confirmAndClose outcome unsub m"

definition BuyCourse_confirm :: "course \<Rightarrow> string \<Rightarrow> jsval \<Rightarrow> bool \<Rightarrow> bool click" where
  "BuyCourse_confirm c outcome unsub opn =
     TxButton (BuyCourse_attrs c) BuyCourse_confirmAndClose outcome unsub opn"

subsection \<open>CourseCard\<close>

datatype action = SetPrice | Transfer | Buy

text \<open>\<^verbatim>\<open>BuyCourse\<close> renders nothing when \<^verbatim>\<open>!course.price\<close>, else its dialog.\<close>

definition BuyCourse :: "course \<Rightarrow> action list" where
  "BuyCourse c = (if \<not> truthy (price c) then [] else [Buy])"

text \<open>The viewer's account, of which the card reads \<^verbatim>\<open>currentAccount.address\<close>, a string.\<close>

record account =
  address :: string

text \<open>What a card shows.\<close>

record card =
  mine :: bool
  avatar :: "8 word list"
  displayDna :: jsval
  year_text :: jsval
  owner_text :: jsval
  price_text :: jsval
  actions :: "action list"

text \<open>
  \<^verbatim>\<open>CourseCard\<close>: the fields are destructured with default \<^verbatim>\<open>null\<close>;
  \<^verbatim>\<open>displayDna = dna && dna.toJSON()\<close>; \<^verbatim>\<open>isSelf = currentAccount.address === course.owner\<close>
  (the field as stored, not the defaulted one); the avatar is given \<^verbatim>\<open>dna.toU8a()\<close>; the
  price line shows \<^verbatim>\<open>price || 'Not For Sale'\<close>; the actions are chosen by
  \<^verbatim>\<open>owner === currentAccount.address\<close> (the defaulted field).  A strict equality with a
  string holds exactly for that string.
\<close>

definition CourseCard :: "account \<Rightarrow> course \<Rightarrow> error + card" where
  "CourseCard currentAccount c =
     (let dna' = default_null (dna c);
          owner' = default_null (owner c);
          course_year' = default_null (course_year c);
          price' = default_null (price c)
      in case (if truthy dna' then call_toJSON dna' else Inr dna') of
           Inl e \<Rightarrow> Inl e
         | Inr displayDna' \<Rightarrow>
             (let isSelf = (Plain (JStr (address currentAccount)) = owner c)
              in case call_toU8a dna' of
                   Inl e \<Rightarrow> Inl e
                 | Inr bytes \<Rightarrow>
                     Inr \<lparr>mine = isSelf,
                          avatar = bytes,
                          displayDna = displayDna',
                          year_text = course_year',
                          owner_text = owner',
                          price_text =
                            (if truthy price' then price' else Plain (JStr ''Not For Sale'')),
                          actions =
                            (if owner' = Plain (JStr (address currentAccount))
                             then [SetPrice, Transfer]
                             else BuyCourse c)\<rparr>))"

text \<open>\<^verbatim>\<open>CourseCards\<close>: a placeholder for no courses, else one card per course.\<close>

datatype cards = MintCourses | Grid "card list"

definition CourseCards :: "account \<Rightarrow> course list \<Rightarrow> error + cards" where
  "CourseCards currentAccount cs =
     (if length cs = 0 then Inr MintCourses
      else (case map_throw (CourseCard currentAccount) cs of
              Inl e \<Rightarrow> Inl e
            | Inr vs \<Rightarrow> Inr (Grid vs)))"

section \<open>Example data\<close>

text \<open>
  Two course identifiers, the records stored under them, a ledger that holds both and
  one from which the second has been removed, two viewers, and a component whose
  identifier set lists both courses.
\<close>

definition id_a :: wire where
  "id_a = Codec (JStr ''0xaa'') [0xaa]"

definition id_b :: wire where
  "id_b = Codec (JStr ''0xbb'') [0xbb]"

definition raw_a :: raw_course where
  "raw_a =
     \<lparr>raw_dna = id_a, raw_price = Codec (JNum 0) [0],
      raw_course_year = Codec (JNum 2021) [0xe5, 7], raw_owner = Codec (JStr ''alice'') [1]\<rparr>"

definition raw_b :: raw_course where
  "raw_b =
     \<lparr>raw_dna = id_b, raw_price = Codec (JNum 5) [5],
      raw_course_year = Codec (JNum 2022) [0xe6, 7], raw_owner = Codec (JStr ''bob'') [2]\<rparr>"

definition ledger_ab :: "wire \<Rightarrow> raw_course option" where
  "ledger_ab k = (if k = id_a then Some raw_a else if k = id_b then Some raw_b else None)"

definition ledger_a :: "wire \<Rightarrow> raw_course option" where
  "ledger_a k = (if k = id_a then Some raw_a else None)"

definition alice :: account where
  "alice = \<lparr>address = ''alice''\<rparr>"

definition bob :: account where
  "bob = \<lparr>address = ''bob''\<rparr>"

definition w_ab :: world where
  "w_ab = mount\<lparr>courseIds := [id_a, id_b]\<rparr>"

text \<open>A course with identifier \<open>D\<close>, listed at price 5.\<close>

definition course_d :: course where
  "course_d =
     \<lparr>dna = Wire (Codec (JStr ''D'') [0x44]), price = Plain (JNum 5),
      course_year = Plain (JNum 2021), owner = Plain (JStr ''alice'')\<rparr>"

section \<open>Helper lemmas\<close>

lemma map_throw_unwrap:
  "map_throw (\<lambda>c. case unwrap c of Inl e \<Rightarrow> Inl e | Inr r \<Rightarrow> Inr (f r)) cs =
     (if list_all (\<lambda>c. c \<noteq> None) cs then Inr (map (\<lambda>c. f (the c)) cs) else Inl UnwrapNone)"
  by (induction cs) (auto simp: unwrap_def split: option.splits)

lemma courses_callback_present:
  "list_all (\<lambda>i. ledger i \<noteq> None) ids \<Longrightarrow>
   courses_callback (multi ledger ids) u =
     Inr (u\<lparr>courses := map (\<lambda>i. parseCourse (the (ledger i))) ids\<rparr>)"
  by (simp add: courses_callback_def multi_def map_throw_unwrap list_all_iff comp_def)

lemma distinct_parse:
  assumes "distinct ids"
    and "\<forall>i\<in>set ids. ledger i \<noteq> None \<and> raw_dna (the (ledger i)) = i"
  shows "distinct (map (\<lambda>i. parseCourse (the (ledger i))) ids)"
proof -
  have "map dna (map (\<lambda>i. parseCourse (the (ledger i))) ids) = map Wire ids"
    using assms(2) by (simp add: parseCourse_def)
  moreover have "distinct (map Wire ids)"
    using assms(1) by (simp add: distinct_map inj_on_def)
  ultimately show ?thesis
    by (metis distinct_map)
qed

lemma courseIds_rerun: "courseIds (rerun_subscribeCourses w) = courseIds w"
  by (simp add: rerun_subscribeCourses_def subscribeCourses_def settle_def
      subscribeCourses_cleanup_def split: sum.splits)

lemma entry_ids_all_or_throw:
  "entry_ids entries =
     (if list_all (\<lambda>entry. snd entry \<noteq> None) entries
      then Inr (map (\<lambda>entry. raw_dna (the (snd entry))) entries)
      else Inl UnwrapNone)"
  unfolding entry_ids_def
  by (induction entries) (auto simp: unwrap_def split: option.splits)

lemma call_handle_cases:
  "call_handle Undefined = Inr []"
  "call_handle (Plain JNull) = Inr []"
  "call_handle (Function f) = Inr [f]"
  by (simp_all add: call_handle_def)

lemma call_handle_invokes: "call_handle u = Inr [f] \<longleftrightarrow> u = Function f"
  by (cases u) (auto simp: call_handle_def split: json.splits)

lemma unsub_calls_upd_eq: "(w\<lparr>unsub_calls := a\<rparr> = w\<lparr>unsub_calls := b\<rparr>) = (a = b)"
  by (metis world.select_convs(7) world.surjective world.update_convs(7))

lemma CourseCard_Inr:
  "CourseCard a c = Inr v \<Longrightarrow>
     mine v = (Plain (JStr (address a)) = owner c) \<and>
     actions v =
       (if default_null (owner c) = Plain (JStr (address a)) then [SetPrice, Transfer]
        else BuyCourse c)"
  by (auto simp: CourseCard_def Let_def split: sum.splits if_splits)

lemma CourseCard_wire:
  "dna c = Wire d \<Longrightarrow>
   CourseCard a c =
     Inr \<lparr>mine = (Plain (JStr (address a)) = owner c), avatar = toU8a d,
          displayDna = Plain (toJSON d),
          year_text = default_null (course_year c), owner_text = default_null (owner c),
          price_text =
            (if truthy (default_null (price c)) then default_null (price c)
             else Plain (JStr ''Not For Sale'')),
          actions =
            (if default_null (owner c) = Plain (JStr (address a)) then [SetPrice, Transfer]
             else BuyCourse c)\<rparr>"
  by (simp add: CourseCard_def Let_def default_null_def call_toJSON_def call_toU8a_def)

lemma CourseCard_plain_dna: "dna c = Plain j \<Longrightarrow> CourseCard viewer c = Inl TypeError"
  by (cases j)
    (auto simp: CourseCard_def Let_def default_null_def call_toJSON_def call_toU8a_def)

lemma TxButton_submitted:
  "submitted (TxButton a onClick outcome unsub s) = Some d \<Longrightarrow>
     d = a \<and> dialog (TxButton a onClick outcome unsub s) = fst (onClick unsub s)"
  by (auto simp: TxButton_def split: if_splits prod.splits)

section \<open>Resolving the identifier set\<close>

text \<open>
  Claim C1, as the code has it.  A resolution push over a set of identifiers whose
  records are all present on the ledger replaces the stored records by the parsed
  record of each identifier, in the identifiers' order.  When the record of some
  identifier is absent, \<^verbatim>\<open>unwrap()\<close> throws inside the \<^verbatim>\<open>map\<close>: the push handler throws
  and yields no records at all, so no identifier is excluded.
\<close>

theorem courses_callback_present_or_throws:
  "courses_callback (multi ledger ids) w =
     (if list_all (\<lambda>i. ledger i \<noteq> None) ids
      then Inr (w\<lparr>courses := map (\<lambda>i. parseCourse (the (ledger i))) ids\<rparr>)
      else Inl UnwrapNone)"
  by (simp add: courses_callback_def multi_def map_throw_unwrap list_all_iff comp_def)

text \<open>Both records present: the handler stores the two parsed records.\<close>

theorem courses_callback_present_or_throws_witness:
  "courses_callback (multi ledger_ab [id_a, id_b]) mount =
     Inr (mount\<lparr>courses := [parseCourse raw_a, parseCourse raw_b]\<rparr>)"
  using courses_callback_present_or_throws [of ledger_ab "[id_a, id_b]" mount]
  by (simp add: ledger_ab_def id_a_def id_b_def)

text \<open>
  The second course has been removed from the ledger: the push over both identifiers
  makes the handler throw, where C1 expects the records of the first course alone.
\<close>

theorem courses_callback_absent_record_throws:
  "courses_callback (multi ledger_a [id_a, id_b]) mount = Inl UnwrapNone"
  by (simp add: courses_callback_def multi_def ledger_a_def id_a_def id_b_def unwrap_def)

section \<open>The identifier set follows the latest enumeration\<close>

text \<open>
  Claim C2, as the code has it.  Whatever pushes of the aggregate signal were handled
  before, handling push N requests the full enumeration, once.  When the enumeration
  answers and each of its entries holds a record, the stored identifier set is replaced
  wholesale by the identifier of each entry, in the enumeration's order: nothing is
  kept from the earlier sets, nothing merged and nothing removed.  When the enumeration
  fails, or one of its entries holds no record, the handler throws before it reaches
  \<^verbatim>\<open>setCourseIds\<close>: the stored set stays what the earlier pushes left, and the error
  escapes uncaught.  The pushes are listed in the order in which their handling ends.
\<close>

theorem count_pushes_replace:
  "fold count_push (earlier @ [(count, r)]) w =
     (let w0 = fold count_push earlier w;
          w1 = w0\<lparr>api_calls := api_calls w0 @ [Entries]\<rparr>
      in case r of
           Inl e \<Rightarrow> w1\<lparr>escaped := escaped w0 @ [e]\<rparr>
         | Inr entries \<Rightarrow>
             if list_all (\<lambda>entry. snd entry \<noteq> None) entries
             then w1\<lparr>courseIds := map (\<lambda>entry. raw_dna (the (snd entry))) entries\<rparr>
             else w1\<lparr>escaped := escaped w0 @ [UnwrapNone]\<rparr>)"
proof -
  let ?w0 = "fold count_push earlier w"
  have last: "fold count_push (earlier @ [(count, r)]) w = count_push (count, r) ?w0"
    by simp
  show ?thesis
  proof (cases r)
    case (Inl e)
    then show ?thesis
      unfolding last
      by (simp add: count_push_def settle_def count_callback_resume_def count_callback_def
          Let_def)
  next
    case (Inr entries)
    then show ?thesis
      unfolding last
      by (simp add: count_push_def settle_def count_callback_resume_def count_callback_def
          entry_ids_all_or_throw Let_def)
  qed
qed

text \<open>
  A first push enumerates courses a and b, a second push, after course a was removed,
  course b alone: b alone is stored, and each push requested its enumeration.
\<close>

theorem count_pushes_replace_witness:
  "courseIds
     (fold count_push
        ([(2, Inr [([0xaa], Some raw_a), ([0xbb], Some raw_b)])] @
         [(1, Inr [([0xbb], Some raw_b)])])
        mount) = [id_b] \<and>
   api_calls
     (fold count_push
        ([(2, Inr [([0xaa], Some raw_a), ([0xbb], Some raw_b)])] @
         [(1, Inr [([0xbb], Some raw_b)])])
        mount) = [Entries, Entries]"
proof -
  let ?p1 = "(2 :: nat, Inr [([0xaa :: 8 word], Some raw_a), ([0xbb], Some raw_b)]
               :: error + (8 word list \<times> raw_course option) list)"
  have first: "fold count_push [?p1] mount =
               mount\<lparr>courseIds := [id_a, id_b], api_calls := [Entries]\<rparr>"
    using count_pushes_replace [of "[]" 2 "snd ?p1" mount]
    by (simp add: Let_def raw_a_def raw_b_def mount_def)
  show ?thesis
    using count_pushes_replace [of "[?p1]" 1 "Inr [([0xbb], Some raw_b)]" mount]
    unfolding first
    by (simp add: Let_def raw_b_def)
qed

text \<open>
  A first push enumerates courses a and b and both are stored.  The enumeration of a
  second push holds an absent record in its second entry, that of a third push fails:
  in both cases the identifiers of the first push stay stored, where C2 expects the
  set to come from the enumeration of the push just handled.
\<close>

theorem count_pushes_throw_keeps_earlier:
  "courseIds
     (fold count_push
        ([(2, Inr [([0xaa], Some raw_a), ([0xbb], Some raw_b)])] @
         [(1, Inr [([0xaa], Some raw_a), ([0xbb], None)])])
        mount) = [id_a, id_b] \<and>
   courseIds
     (fold count_push
        ([(2, Inr [([0xaa], Some raw_a), ([0xbb], Some raw_b)])] @
         [(1, Inl (Transport ''connection lost''))])
        mount) = [id_a, id_b]"
  by (simp add: count_push_def settle_def count_callback_resume_def count_callback_def
      entry_ids_def unwrap_def raw_a_def raw_b_def mount_def)

section \<open>The size of the resolved records\<close>

text \<open>
  Claim C8, as the code has it.  Take a subscription opened with the stored identifier
  set, and a push in which no record is missing.  The handler then returns, the stored
  records number exactly as many as the identifiers, and they are free of duplicates
  when the identifiers are and each record carries the identifier it is stored under.
  Running the effect again with the identifier set unchanged (cleanup, then a new
  subscription over the same identifiers) and handling its push stores the same records
  again: nothing accumulates.  Nothing is subtracted for a missing record: such a push
  makes the handler throw (see C1), and the stored records stay what they were.
\<close>

theorem resolved_size:
  assumes "list_all (\<lambda>i. ledger i \<noteq> None) (courseIds w)"
  shows "\<exists>w'. courses_callback (multi ledger (courseIds w)) (subscribeCourses w) = Inr w' \<and>
           length (courses w') = length (courseIds w) \<and>
           (distinct (courseIds w) \<and>
              list_all (\<lambda>i. raw_dna (the (ledger i)) = i) (courseIds w)
              \<longrightarrow> distinct (courses w')) \<and>
           courseIds (rerun_subscribeCourses w') = courseIds w \<and>
           (\<exists>w''. courses_callback (multi ledger (courseIds (rerun_subscribeCourses w')))
                    (rerun_subscribeCourses w') = Inr w'' \<and>
                  courses w'' = courses w')"
proof -
  let ?ids = "courseIds w"
  let ?cs = "map (\<lambda>i. parseCourse (the (ledger i))) ?ids"
  let ?w' = "(subscribeCourses w)\<lparr>courses := ?cs\<rparr>"
  have first: "courses_callback (multi ledger ?ids) (subscribeCourses w) = Inr ?w'"
    using assms by (rule courses_callback_present)
  have ids': "courseIds (rerun_subscribeCourses ?w') = ?ids"
    by (simp add: courseIds_rerun subscribeCourses_def)
  have again:
    "courses_callback (multi ledger (courseIds (rerun_subscribeCourses ?w')))
       (rerun_subscribeCourses ?w') = Inr ((rerun_subscribeCourses ?w')\<lparr>courses := ?cs\<rparr>)"
    unfolding ids' using assms by (rule courses_callback_present)
  have dist:
    "distinct ?ids \<and> list_all (\<lambda>i. raw_dna (the (ledger i)) = i) ?ids \<longrightarrow> distinct ?cs"
    using assms distinct_parse [of ?ids ledger] by (auto simp: list_all_iff)
  show ?thesis
    using first again dist ids' by simp
qed

text \<open>Both courses present: two identifiers resolve to two distinct records.\<close>

theorem resolved_size_witness:
  "list_all (\<lambda>i. ledger_ab i \<noteq> None) (courseIds w_ab) \<and>
   (\<exists>w'. courses_callback (multi ledger_ab (courseIds w_ab)) (subscribeCourses w_ab) = Inr w' \<and>
         length (courses w') = 2 \<and> distinct (courses w'))"
proof -
  have h: "list_all (\<lambda>i. ledger_ab i \<noteq> None) (courseIds w_ab)"
    by (simp add: w_ab_def ledger_ab_def)
  have d: "distinct (courseIds w_ab) \<and>
           list_all (\<lambda>i. raw_dna (the (ledger_ab i)) = i) (courseIds w_ab)"
    by (simp add: w_ab_def ledger_ab_def id_a_def id_b_def raw_a_def raw_b_def)
  have l: "length (courseIds w_ab) = 2"
    by (simp add: w_ab_def)
  show ?thesis
    using h d l resolved_size [OF h] by metis
qed

text \<open>
  Two identifiers, both resolved earlier, and the second course removed since: C8
  expects one record (two identifiers less one missing), but the push throws and the
  two records of the earlier push stay stored.
\<close>

theorem resolved_size_missing_record:
  "length (courses (settle (courses_callback (multi ledger_a (courseIds w_ab)))
       (w_ab\<lparr>courses := [parseCourse raw_a, parseCourse raw_b]\<rparr>))) = 2 \<and>
   length (courseIds w_ab) - length (filter (\<lambda>i. ledger_a i = None) (courseIds w_ab)) = 1"
  by (simp add: settle_def courses_callback_def multi_def w_ab_def ledger_a_def unwrap_def
      id_a_def id_b_def)

section \<open>Failure and teardown of the subscriptions\<close>

text \<open>
  Claim C5, as the code has it.  When the request that opens the aggregate subscription
  fails, the failure is thrown out of the fire-and-forget \<^verbatim>\<open>asyncFetch\<close> and nothing
  catches it: it is not reported on the status string, which stays what it was, as does
  the rest of the component's state; the unsubscribe handle stays \<^verbatim>\<open>null\<close>; and the
  subscription has been requested once, with no retry.  A failure of the enumeration
  that a push requests escapes in the same way, leaving the status string and the
  stored identifiers as they were.
\<close>

theorem subscribeCount_failure_escapes:
  "settle (subscribeCount_asyncFetch (Inl e)) (subscribeCount w) =
     (subscribeCount w)\<lparr>escaped := escaped w @ [e]\<rparr> \<and>
   status (settle (subscribeCount_asyncFetch (Inl e)) (subscribeCount w)) = status w \<and>
   api_calls (settle (subscribeCount_asyncFetch (Inl e)) (subscribeCount w)) =
     api_calls w @ [CountForCourses] \<and>
   count_unsub (settle (subscribeCount_asyncFetch (Inl e)) (subscribeCount w)) = Plain JNull \<and>
   count_push (count, Inl e) w =
     w\<lparr>api_calls := api_calls w @ [Entries], escaped := escaped w @ [e]\<rparr>"
proof -
  have "settle (subscribeCount_asyncFetch (Inl e)) (subscribeCount w) =
        (subscribeCount w)\<lparr>escaped := escaped w @ [e]\<rparr>"
    by (simp add: settle_def subscribeCount_asyncFetch_def subscribeCount_def)
  moreover have "count_push (count, Inl e) w =
        w\<lparr>api_calls := api_calls w @ [Entries], escaped := escaped w @ [e]\<rparr>"
    by (simp add: count_push_def settle_def count_callback_resume_def count_callback_def)
  ultimately show ?thesis
    by (simp add: subscribeCount_def)
qed

text \<open>
  The connection is lost while the freshly mounted component opens the aggregate
  subscription: the status string is still empty, where C5 expects it to report the
  failure; the failure is among the escaped errors only.
\<close>

theorem subscribeCount_failure_status_unchanged:
  "status (settle (subscribeCount_asyncFetch (Inl (Transport ''connection lost'')))
      (subscribeCount mount)) = [] \<and>
   escaped (settle (subscribeCount_asyncFetch (Inl (Transport ''connection lost'')))
      (subscribeCount mount)) = [Transport ''connection lost'']"
  by (simp add: settle_def subscribeCount_asyncFetch_def subscribeCount_def mount_def)

text \<open>
  Claim C6.  The cleanup of either subscription, called while its handle is still
  \<^verbatim>\<open>undefined\<close>, or \<^verbatim>\<open>null\<close> as right after the effect started and before the asynchronous
  open completed, returns without throwing and leaves everything as it was: nothing is
  invoked.  It invokes a function \<open>f\<close>, once, exactly when the handle is that function.
\<close>

theorem cleanup_safe:
  "subscribeCount_cleanup (w\<lparr>count_unsub := Undefined\<rparr>) = Inr (w\<lparr>count_unsub := Undefined\<rparr>) \<and>
   subscribeCount_cleanup (subscribeCount w) = Inr (subscribeCount w) \<and>
   (subscribeCount_cleanup w = Inr (w\<lparr>unsub_calls := unsub_calls w @ [f]\<rparr>)
      \<longleftrightarrow> count_unsub w = Function f) \<and>
   subscribeCourses_cleanup (w\<lparr>courses_unsub := Undefined\<rparr>) =
     Inr (w\<lparr>courses_unsub := Undefined\<rparr>) \<and>
   subscribeCourses_cleanup (subscribeCourses w) = Inr (subscribeCourses w) \<and>
   (subscribeCourses_cleanup w = Inr (w\<lparr>unsub_calls := unsub_calls w @ [f]\<rparr>)
      \<longleftrightarrow> courses_unsub w = Function f)"
proof -
  have a: "subscribeCount_cleanup (w\<lparr>count_unsub := Undefined\<rparr>) =
           Inr (w\<lparr>count_unsub := Undefined\<rparr>)"
    by (simp add: subscribeCount_cleanup_def call_handle_cases)
  have b: "subscribeCount_cleanup (subscribeCount w) = Inr (subscribeCount w)"
    by (simp add: subscribeCount_cleanup_def subscribeCount_def call_handle_cases)
  have c: "subscribeCount_cleanup w = Inr (w\<lparr>unsub_calls := unsub_calls w @ [f]\<rparr>)
             \<longleftrightarrow> count_unsub w = Function f"
    by (auto simp: subscribeCount_cleanup_def unsub_calls_upd_eq call_handle_invokes
        call_handle_cases split: sum.splits)
  have d: "subscribeCourses_cleanup (w\<lparr>courses_unsub := Undefined\<rparr>) =
           Inr (w\<lparr>courses_unsub := Undefined\<rparr>)"
    by (simp add: subscribeCourses_cleanup_def call_handle_cases)
  have e: "subscribeCourses_cleanup (subscribeCourses w) = Inr (subscribeCourses w)"
    by (simp add: subscribeCourses_cleanup_def subscribeCourses_def call_handle_cases)
  have g: "subscribeCourses_cleanup w = Inr (w\<lparr>unsub_calls := unsub_calls w @ [f]\<rparr>)
             \<longleftrightarrow> courses_unsub w = Function f"
    by (auto simp: subscribeCourses_cleanup_def unsub_calls_upd_eq call_handle_invokes
        call_handle_cases split: sum.splits)
  from a b c d e g show ?thesis by blast
qed

section \<open>What a card offers\<close>

text \<open>
  Claim C3.  For every course record that renders: when the record's owner is the
  viewer's address, the actions are exactly set-price and transfer, whatever the price;
  when the owner is another and the price is a positive number, the only action is buy;
  when the owner is another and the price is missing, \<^verbatim>\<open>null\<close> or zero, there is no action.
\<close>

theorem CourseCard_actions:
  assumes "CourseCard viewer c = Inr v"
  shows "(owner c = Plain (JStr (address viewer)) \<longrightarrow> actions v = [SetPrice, Transfer]) \<and>
         (owner c \<noteq> Plain (JStr (address viewer)) \<and> (\<exists>n>0. price c = Plain (JNum n))
            \<longrightarrow> actions v = [Buy]) \<and>
         (owner c \<noteq> Plain (JStr (address viewer)) \<and>
            (price c = Undefined \<or> price c = Plain JNull \<or> price c = Plain (JNum 0))
            \<longrightarrow> actions v = [])"
proof -
  have acts:
    "actions v =
       (if default_null (owner c) = Plain (JStr (address viewer)) then [SetPrice, Transfer]
        else BuyCourse c)"
    using CourseCard_Inr [OF assms] by simp
  have own:
    "(default_null (owner c) = Plain (JStr (address viewer))) =
     (owner c = Plain (JStr (address viewer)))"
    by (simp add: default_null_def)
  show ?thesis
    unfolding acts own by (auto simp: BuyCourse_def)
qed

text \<open>
  Alice looks at her own course, priced 0; at Bob's course, priced 5; and Bob looks at
  Alice's course, priced 0.
\<close>

theorem CourseCard_actions_witness:
  "(\<exists>v. CourseCard alice (parseCourse raw_a) = Inr v \<and> actions v = [SetPrice, Transfer]) \<and>
   (\<exists>v. CourseCard alice (parseCourse raw_b) = Inr v \<and> actions v = [Buy]) \<and>
   (\<exists>v. CourseCard bob (parseCourse raw_a) = Inr v \<and> actions v = [])"
proof -
  obtain v1 where v1: "CourseCard alice (parseCourse raw_a) = Inr v1"
    by (simp add: CourseCard_wire [of _ "raw_dna raw_a"] parseCourse_def)
  obtain v2 where v2: "CourseCard alice (parseCourse raw_b) = Inr v2"
    by (simp add: CourseCard_wire [of _ "raw_dna raw_b"] parseCourse_def)
  obtain v3 where v3: "CourseCard bob (parseCourse raw_a) = Inr v3"
    by (simp add: CourseCard_wire [of _ "raw_dna raw_a"] parseCourse_def)
  have "actions v1 = [SetPrice, Transfer]"
    using CourseCard_actions [OF v1] by (simp add: parseCourse_def raw_a_def alice_def)
  moreover have "actions v2 = [Buy]"
    using CourseCard_actions [OF v2] by (simp add: parseCourse_def raw_b_def alice_def)
  moreover have "actions v3 = []"
    using CourseCard_actions [OF v3] by (simp add: parseCourse_def raw_a_def bob_def)
  ultimately show ?thesis
    using v1 v2 v3 by simp
qed

text \<open>
  Claim C9.  On every card that renders, the label "Mine" is shown if and only if the
  owner's actions, set-price and transfer, are shown.  The label compares the viewer's
  address with the owner as stored and the actions compare it with the owner after the
  default \<^verbatim>\<open>null\<close>; the two agree because the address is a string.
\<close>

theorem mine_iff_owner_actions:
  assumes "CourseCard viewer c = Inr v"
  shows "mine v \<longleftrightarrow> actions v = [SetPrice, Transfer]"
proof -
  have own:
    "(default_null (owner c) = Plain (JStr (address viewer))) =
     (Plain (JStr (address viewer)) = owner c)"
    by (auto simp: default_null_def)
  have "BuyCourse c \<noteq> [SetPrice, Transfer]"
    by (simp add: BuyCourse_def)
  then show ?thesis
    using CourseCard_Inr [OF assms] own by auto
qed

text \<open>Alice's own course shows both, Bob's course shows neither.\<close>

theorem mine_iff_owner_actions_witness:
  "(\<exists>v. CourseCard alice (parseCourse raw_a) = Inr v \<and> mine v \<and>
        actions v = [SetPrice, Transfer]) \<and>
   (\<exists>v. CourseCard alice (parseCourse raw_b) = Inr v \<and> \<not> mine v \<and>
        actions v \<noteq> [SetPrice, Transfer])"
proof -
  obtain v1 where v1: "CourseCard alice (parseCourse raw_a) = Inr v1"
    by (simp add: CourseCard_wire [of _ "raw_dna raw_a"] parseCourse_def)
  obtain v2 where v2: "CourseCard alice (parseCourse raw_b) = Inr v2"
    by (simp add: CourseCard_wire [of _ "raw_dna raw_b"] parseCourse_def)
  have "mine v1"
    using v1
    by (auto simp: CourseCard_wire [of _ "raw_dna raw_a"] parseCourse_def raw_a_def alice_def)
  moreover have "\<not> mine v2"
    using v2
    by (auto simp: CourseCard_wire [of _ "raw_dna raw_b"] parseCourse_def raw_b_def alice_def)
  ultimately show ?thesis
    using v1 v2 mine_iff_owner_actions [OF v1] mine_iff_owner_actions [OF v2] by simp
qed

text \<open>
  Claim C10.  \<^verbatim>\<open>parseCourse\<close> stores the identifier as the wire object it received and
  the price, the year and the owner as the plain values their wire objects' \<^verbatim>\<open>toJSON\<close>
  returns.  The card relies on that: a parsed record renders, showing the identifier's
  \<^verbatim>\<open>toJSON()\<close> and handing its \<^verbatim>\<open>toU8a()\<close> to the avatar, whereas any record whose
  identifier is a plain value fails to render with a type error.
\<close>

theorem parseCourse_keeps_dna_wire:
  "dna (parseCourse r) = Wire (raw_dna r) \<and>
   price (parseCourse r) = Plain (toJSON (raw_price r)) \<and>
   course_year (parseCourse r) = Plain (toJSON (raw_course_year r)) \<and>
   owner (parseCourse r) = Plain (toJSON (raw_owner r)) \<and>
   (\<exists>v. CourseCard viewer (parseCourse r) = Inr v \<and>
        displayDna v = Plain (toJSON (raw_dna r)) \<and> avatar v = toU8a (raw_dna r)) \<and>
   CourseCard viewer (c\<lparr>dna := Plain j\<rparr>) = Inl TypeError"
proof -
  have "CourseCard viewer (c\<lparr>dna := Plain j\<rparr>) = Inl TypeError"
    by (rule CourseCard_plain_dna) simp
  moreover have "\<exists>v. CourseCard viewer (parseCourse r) = Inr v \<and>
        displayDna v = Plain (toJSON (raw_dna r)) \<and> avatar v = toU8a (raw_dna r)"
    using CourseCard_wire [of "parseCourse r" "raw_dna r" viewer] by (simp add: parseCourse_def)
  ultimately show ?thesis
    by (simp add: parseCourse_def)
qed

section \<open>Confirming a dialog\<close>

text \<open>
  Claim C4.  Whenever the confirm button of a dialog submits, the descriptor submitted
  is that of the dialog: \<open>transfer\<close> with the receiver typed and the course identifier,
  \<open>setPrice\<close> with the course identifier and the price typed, \<open>buyCourse\<close> with the
  course identifier and the course's price, each in module \<open>courseGrading\<close> with flags
  \<open>[true, true]\<close>; and the dialog is closed afterwards, whatever status the transaction
  ends with and whatever handle the button passes on.
\<close>

theorem confirmed_actions_descriptors:
  "(submitted (TransferModal_confirm c outcome unsub m) = Some d \<longrightarrow>
      d = \<lparr>palletRpc = ''courseGrading'', callable = ''transfer'',
           inputParams = [get_prop (formValue m) ''target'', dna c],
           paramFields = [True, True]\<rparr> \<and>
      \<not> open (dialog (TransferModal_confirm c outcome unsub m))) \<and>
   (submitted (SetPrice_confirm c outcome unsub m) = Some d \<longrightarrow>
      d = \<lparr>palletRpc = ''courseGrading'', callable = ''setPrice'',
           inputParams = [dna c, get_prop (formValue m) ''target''],
           paramFields = [True, True]\<rparr> \<and>
      \<not> open (dialog (SetPrice_confirm c outcome unsub m))) \<and>
   (submitted (BuyCourse_confirm c outcome unsub opn) = Some d \<longrightarrow>
      d = \<lparr>palletRpc = ''courseGrading'', callable = ''buyCourse'',
           inputParams = [dna c, price c], paramFields = [True, True]\<rparr> \<and>
      \<not> dialog (BuyCourse_confirm c outcome unsub opn))"
proof -
  have t: "submitted (TransferModal_confirm c outcome unsub m) = Some d \<longrightarrow>
      d = TransferModal_attrs c m \<and> \<not> open (dialog (TransferModal_confirm c outcome unsub m))"
    unfolding TransferModal_confirm_def
    by (auto dest!: TxButton_submitted simp: confirmAndClose_def)
  have s: "submitted (SetPrice_confirm c outcome unsub m) = Some d \<longrightarrow>
      d = SetPrice_attrs c m \<and> \<not> open (dialog (SetPrice_confirm c outcome unsub m))"
    unfolding SetPrice_confirm_def
    by (auto dest!: TxButton_submitted simp: confirmAndClose_def)
  have b: "submitted (BuyCourse_confirm c outcome unsub opn) = Some d \<longrightarrow>
      d = BuyCourse_attrs c \<and> \<not> dialog (BuyCourse_confirm c outcome unsub opn)"
    unfolding BuyCourse_confirm_def
    by (auto dest!: TxButton_submitted simp: BuyCourse_confirmAndClose_def)
  from t s b show ?thesis
    by (simp add: TransferModal_attrs_def SetPrice_attrs_def BuyCourse_attrs_def)
qed

text \<open>
  A transfer of course \<open>D\<close> to receiver \<open>R\<close>, confirmed in an open dialog, with a
  transaction that ends in failure: the descriptor names \<open>transfer\<close> with \<open>R\<close> and the
  identifier \<open>D\<close>, and the dialog is closed.  Likewise a new price \<open>7\<close> and a purchase.
\<close>

theorem confirmed_actions_descriptors_witness:
  "submitted (TransferModal_confirm course_d ''Failed'' Undefined
      (formChange ''target'' ''R'' (new_modal\<lparr>open := True\<rparr>))) =
     Some \<lparr>palletRpc = ''courseGrading'', callable = ''transfer'',
           inputParams = [Plain (JStr ''R''), Wire (Codec (JStr ''D'') [0x44])],
           paramFields = [True, True]\<rparr> \<and>
   \<not> open (dialog (TransferModal_confirm course_d ''Failed'' Undefined
      (formChange ''target'' ''R'' (new_modal\<lparr>open := True\<rparr>)))) \<and>
   submitted (SetPrice_confirm course_d ''Finalized'' Undefined
      (formChange ''target'' ''7'' (new_modal\<lparr>open := True\<rparr>))) =
     Some \<lparr>palletRpc = ''courseGrading'', callable = ''setPrice'',
           inputParams = [Wire (Codec (JStr ''D'') [0x44]), Plain (JStr ''7'')],
           paramFields = [True, True]\<rparr> \<and>
   \<not> open (dialog (SetPrice_confirm course_d ''Finalized'' Undefined
      (formChange ''target'' ''7'' (new_modal\<lparr>open := True\<rparr>)))) \<and>
   submitted (BuyCourse_confirm course_d ''Finalized'' (Function 3) True) =
     Some \<lparr>palletRpc = ''courseGrading'', callable = ''buyCourse'',
           inputParams = [Wire (Codec (JStr ''D'') [0x44]), Plain (JNum 5)],
           paramFields = [True, True]\<rparr> \<and>
   \<not> dialog (BuyCourse_confirm course_d ''Finalized'' (Function 3) True)"
proof -
  let ?mr = "formChange ''target'' ''R'' (new_modal\<lparr>open := True\<rparr>)"
  let ?mp = "formChange ''target'' ''7'' (new_modal\<lparr>open := True\<rparr>)"
  have t: "submitted (TransferModal_confirm course_d ''Failed'' Undefined ?mr) =
           Some (TransferModal_attrs course_d ?mr)"
    by (simp add: TransferModal_confirm_def TxButton_def TransferModal_attrs_def
        param_filled_def get_prop_def formChange_def new_modal_def course_d_def
        confirmAndClose_def)
  have s: "submitted (SetPrice_confirm course_d ''Finalized'' Undefined ?mp) =
           Some (SetPrice_attrs course_d ?mp)"
    by (simp add: SetPrice_confirm_def TxButton_def SetPrice_attrs_def
        param_filled_def get_prop_def formChange_def new_modal_def course_d_def
        confirmAndClose_def)
  have b: "submitted (BuyCourse_confirm course_d ''Finalized'' (Function 3) True) =
           Some (BuyCourse_attrs course_d)"
    by (simp add: BuyCourse_confirm_def TxButton_def BuyCourse_attrs_def
        param_filled_def course_d_def BuyCourse_confirmAndClose_def)
  show ?thesis
    using t s b
      confirmed_actions_descriptors [where c = course_d and outcome = "''Failed''"
        and unsub = Undefined and m = ?mr and d = "TransferModal_attrs course_d ?mr"]
      confirmed_actions_descriptors [where c = course_d and outcome = "''Finalized''"
        and unsub = Undefined and m = ?mp and d = "SetPrice_attrs course_d ?mp"]
      confirmed_actions_descriptors [where c = course_d and outcome = "''Finalized''"
        and unsub = "Function 3" and opn = True and d = "BuyCourse_attrs course_d"]
    by (simp add: get_prop_def formChange_def new_modal_def course_d_def)
qed

text \<open>
  Claim C7.  The transfer and the set-price dialog check nothing about the text typed
  but that it is not empty.  A confirm with nothing typed, or with the input emptied
  again, submits nothing and leaves the dialog as it is; a confirm with any non-empty
  text submits that very text, unchanged, in its place among the parameters (for a
  course whose identifier is present).
\<close>

theorem only_nonempty_required:
  "submitted (TransferModal_confirm c outcome unsub new_modal) = None \<and>
   dialog (TransferModal_confirm c outcome unsub new_modal) = new_modal \<and>
   submitted (TransferModal_confirm c outcome unsub (formChange ''target'' [] m)) = None \<and>
   dialog (TransferModal_confirm c outcome unsub (formChange ''target'' [] m)) =
     formChange ''target'' [] m \<and>
   submitted (SetPrice_confirm c outcome unsub new_modal) = None \<and>
   dialog (SetPrice_confirm c outcome unsub new_modal) = new_modal \<and>
   submitted (SetPrice_confirm c outcome unsub (formChange ''target'' [] m)) = None \<and>
   dialog (SetPrice_confirm c outcome unsub (formChange ''target'' [] m)) =
     formChange ''target'' [] m \<and>
   (s \<noteq> [] \<and> param_filled (dna c) \<longrightarrow>
      submitted (TransferModal_confirm c outcome unsub (formChange ''target'' s m)) =
        Some \<lparr>palletRpc = ''courseGrading'', callable = ''transfer'',
              inputParams = [Plain (JStr s), dna c], paramFields = [True, True]\<rparr> \<and>
      submitted (SetPrice_confirm c outcome unsub (formChange ''target'' s m)) =
        Some \<lparr>palletRpc = ''courseGrading'', callable = ''setPrice'',
              inputParams = [dna c, Plain (JStr s)], paramFields = [True, True]\<rparr>)"
  by (simp add: TransferModal_confirm_def SetPrice_confirm_def TxButton_def
      TransferModal_attrs_def SetPrice_attrs_def param_filled_def get_prop_def formChange_def
      new_modal_def confirmAndClose_def)

text \<open>Text that is neither an address nor a number is submitted as typed.\<close>

theorem only_nonempty_required_witness:
  "submitted (TransferModal_confirm (parseCourse raw_a) ''InBlock'' Undefined
      (formChange ''target'' ''not an address'' new_modal)) =
     Some \<lparr>palletRpc = ''courseGrading'', callable = ''transfer'',
           inputParams = [Plain (JStr ''not an address''), Wire id_a],
           paramFields = [True, True]\<rparr> \<and>
   submitted (SetPrice_confirm (parseCourse raw_a) ''InBlock'' Undefined
      (formChange ''target'' ''-1e9x'' new_modal)) =
     Some \<lparr>palletRpc = ''courseGrading'', callable = ''setPrice'',
           inputParams = [Wire id_a, Plain (JStr ''-1e9x'')], paramFields = [True, True]\<rparr>"
proof -
  have f: "param_filled (dna (parseCourse raw_a))"
    and d: "dna (parseCourse raw_a) = Wire id_a"
    by (simp_all add: param_filled_def parseCourse_def raw_a_def)
  have n: "''not an address'' \<noteq> []" "''-1e9x'' \<noteq> []"
    by simp_all
  show ?thesis
    using f n
      only_nonempty_required [of "parseCourse raw_a" "''InBlock''" Undefined new_modal
        "''not an address''"]
      only_nonempty_required [of "parseCourse raw_a" "''InBlock''" Undefined new_modal
        "''-1e9x''"]
    by (simp add: d)
qed

end
